theory Spec2Isabelle
  imports Complex_Main "HOL-Library.Char_ord" "HOL-Library.List_Lexorder"
begin

section \<open>Gesture-controlled music player: embedding of music_player.py\<close>

text \<open>
  The script is one module: a start-up part (playlist, volume device, memory variables),
  four gesture classifiers and the frame loop. Python floats (landmark coordinates,
  time stamps, volume levels) are modelled as reals, Python ints as \<open>int\<close>. Calls into
  pygame and the volume device are recorded as a list of calls and taken to succeed
  (a track that exists is loadable); what the environment
  answers (directory listing, detected hands, clock, \<open>get_busy()\<close>, pressed key) is an input.
\<close>

subsection \<open>Data\<close>

datatype error = FileNotFoundError | IndexError | ZeroDivisionError

text \<open>One MediaPipe landmark; only \<open>x\<close> and \<open>y\<close> are read by the script.\<close>

record point =
  x :: real
  y :: real

text \<open>
  \<open>landmarks.landmark[i]\<close>: the detector's hand model delivers a landmark for every index
  the script reads (0 to 20), so the lookup is a total map from index to landmark.
\<close>

record hand_landmarks =
  landmark :: "nat \<Rightarrow> point"

datatype handedness = Left | Right

text \<open>What \<open>hands.process\<close> returns: both fields are \<open>None\<close> when no hand is seen.\<close>

record results =
  multi_hand_landmarks :: "hand_landmarks list option"
  multi_handedness :: "handedness list option"

text \<open>Calls into the playback engine and the volume device, in the order they are made.\<close>

datatype call =
    MusicLoad string
  | MusicPlay
  | MusicPause
  | MusicUnpause
  | SetMasterVolumeLevel real

text \<open>The discrete command a hand triggers (the branch taken in the cooldown block).\<close>

datatype command = NextTrack | PreviousTrack | PlayPauseToggle

text \<open>Module-level values fixed at start-up.\<close>

record session =
  music_files :: "string list"
  minVol :: real
  maxVol :: real

text \<open>Module-level variables the loop assigns.\<close>

record player =
  current_song_index :: int
  last_volume :: real
  last_wave_time :: real
  last_gesture_time :: real
  current_message :: string
  message_start_time :: real
  volPer :: int
  volume_gesture_active :: bool

text \<open>What one loop iteration reads from the environment.\<close>

record frame_input =
  detection :: results
  frame_shape :: "int \<times> int"
  current_time :: real
  get_busy :: bool
  wait_key :: int

text \<open>What one loop iteration does: commands accepted, calls made, text drawn.\<close>

record frame_output =
  commands :: "command list"
  calls :: "call list"
  shown_message :: "string option"
  shown_volume :: int

text \<open>The volume device at start-up: \<open>GetVolumeRange()\<close> and \<open>GetMasterVolumeLevel()\<close>.\<close>

record device =
  volRange :: "real \<times> real"
  master_level :: real

subsection \<open>Library functions the script calls\<close>

text \<open>\<open>int(r)\<close> on a float truncates toward zero.\<close>

definition py_int :: "real \<Rightarrow> int" where
  "py_int r = (if 0 \<le> r then \<lfloor>r\<rfloor> else \<lceil>r\<rceil>)"

definition hypot :: "real \<Rightarrow> real \<Rightarrow> real" where
  "hypot a b = sqrt (a\<^sup>2 + b\<^sup>2)"

text \<open>
  \<open>np.interp(v, [xp0, xp1], [fp0, fp1])\<close> for a scalar and two sample points, in the order
  NumPy decides it: right of the last point, left of the first, on the last point, on the
  first point, and the line through the two points otherwise.
\<close>

definition interp :: "real \<Rightarrow> real \<times> real \<Rightarrow> real \<times> real \<Rightarrow> real" where
  "interp v xp fp =
     (let (xp0, xp1) = xp; (fp0, fp1) = fp in
      if v > xp1 then fp1
      else if v < xp0 then fp0
      else if v \<ge> xp1 then fp1
      else if v = xp0 then fp0
      else (fp1 - fp0) / (xp1 - xp0) * (v - xp0) + fp0)"

definition endswith :: "string \<Rightarrow> string \<Rightarrow> bool" where
  "endswith s suf = (length suf \<le> length s \<and> drop (length s - length suf) s = suf)"

text \<open>
  \<open>os.path.join(folder, f)\<close> for a relative file name and a folder without a trailing
  separator; the separator is the platform's.
\<close>

definition path_join :: "char \<Rightarrow> string \<Rightarrow> string \<Rightarrow> string" where
  "path_join sep folder f = folder @ [sep] @ f"

text \<open>Python truthiness of an optional list: \<open>None\<close> and \<open>[]\<close> are false.\<close>

definition truthy :: "'a list option \<Rightarrow> bool" where
  "truthy v = (case v of None \<Rightarrow> False | Some l \<Rightarrow> l \<noteq> [])"

subsection \<open>Constants\<close>

definition songs_folder :: string where
  "songs_folder = ''songs''"

definition cooldown_time :: real where
  "cooldown_time = 1.0"

definition gesture_cooldown :: real where
  "gesture_cooldown = 1"

definition message_duration :: real where
  "message_duration = 1"

subsection \<open>Gesture classifiers\<close>

definition is_wave_left :: "hand_landmarks \<Rightarrow> bool" where
  "is_wave_left landmarks =
     (let wrist = landmark landmarks 0;
          finger_tips = map (landmark landmarks) [4, 8, 12, 16, 20]
      in list_all (\<lambda>tip. x tip < x wrist - 0.1) finger_tips)"

definition is_wave_right :: "hand_landmarks \<Rightarrow> bool" where
  "is_wave_right landmarks =
     (let wrist = landmark landmarks 0;
          finger_tips = map (landmark landmarks) [4, 8, 12, 16, 20]
      in list_all (\<lambda>tip. x tip > x wrist + 0.1) finger_tips)"

definition is_volume_control_gesture :: "hand_landmarks \<Rightarrow> bool" where
  "is_volume_control_gesture landmarks =
     (let index_up = y (landmark landmarks 8) < y (landmark landmarks 6);
          thumb_up = x (landmark landmarks 4) < x (landmark landmarks 3);
          middle_down = y (landmark landmarks 12) > y (landmark landmarks 10);
          ring_down = y (landmark landmarks 16) > y (landmark landmarks 14);
          pinky_down = y (landmark landmarks 20) > y (landmark landmarks 18)
      in index_up \<and> thumb_up \<and> middle_down \<and> ring_down \<and> pinky_down)"

definition is_play_pause_gesture :: "hand_landmarks \<Rightarrow> bool" where
  "is_play_pause_gesture landmarks =
     (let thumb_tip = landmark landmarks 4;
          index_tip = landmark landmarks 8;
          distance = hypot (x thumb_tip - x index_tip) (y thumb_tip - y index_tip);
          middle_up = y (landmark landmarks 12) < y (landmark landmarks 10);
          ring_up = y (landmark landmarks 16) < y (landmark landmarks 14);
          pinky_up = y (landmark landmarks 20) < y (landmark landmarks 18)
      in distance < 0.05 \<and> middle_up \<and> ring_up \<and> pinky_up)"

subsection \<open>Start-up\<close>

text \<open>
  The playlist: every name of the listing that ends in \<open>.mp3\<close>, joined to the folder,
  sorted. A missing folder makes \<open>os.listdir\<close> raise.
\<close>

definition enumerate_music_files :: "char \<Rightarrow> string list option \<Rightarrow> error + string list" where
  "enumerate_music_files sep listing =
     (case listing of
        None \<Rightarrow> Inl FileNotFoundError
      | Some names \<Rightarrow>
          Inr (sort (map (path_join sep songs_folder)
                 (filter (\<lambda>f. endswith f ''.mp3'') names))))"

text \<open>
  The index starts at 0 and the first track is loaded at once: \<open>music_files[0]\<close> raises
  on an empty playlist, before the device is opened and before the loop.
\<close>

definition startup ::
  "char \<Rightarrow> string list option \<Rightarrow> device \<Rightarrow> error + (session \<times> player \<times> call list)" where
  "startup sep listing dev =
     (case enumerate_music_files sep listing of
        Inl e \<Rightarrow> Inl e
      | Inr files \<Rightarrow>
          (let current_song_index = (0::int) in
           if files = [] then Inl IndexError
           else
             (let loaded = [MusicLoad (files ! nat current_song_index)];
                  (lo, hi) = volRange dev;
                  cfg = \<lparr>music_files = files, minVol = lo, maxVol = hi\<rparr>;
                  s = \<lparr>current_song_index = current_song_index,
                       last_volume = master_level dev,
                       last_wave_time = 0,
                       last_gesture_time = 0,
                       current_message = '''',
                       message_start_time = 0,
                       volPer = 0,
                       volume_gesture_active = False\<rparr>
              in Inr (cfg, s, loaded))))"

subsection \<open>One hand of one frame\<close>

text \<open>The index updates of the two wave branches; \<open>%\<close> raises on a zero modulus.\<close>

definition next_index :: "session \<Rightarrow> int \<Rightarrow> error + int" where
  "next_index cfg i =
     (if length (music_files cfg) = 0 then Inl ZeroDivisionError
      else Inr ((i + 1) mod int (length (music_files cfg))))"

definition previous_index :: "session \<Rightarrow> int \<Rightarrow> error + int" where
  "previous_index cfg i =
     (if length (music_files cfg) = 0 then Inl ZeroDivisionError
      else Inr ((i - 1) mod int (length (music_files cfg))))"

text \<open>The body of the play/pause branch.\<close>

definition play_pause_branch :: "real \<Rightarrow> bool \<Rightarrow> player \<Rightarrow> player \<times> call list" where
  "play_pause_branch now busy s =
     (if busy
      then (s\<lparr>current_message := ''Paused'',
               message_start_time := now, last_gesture_time := now\<rparr>, [MusicPause])
      else (s\<lparr>current_message := ''Playing'',
               message_start_time := now, last_gesture_time := now\<rparr>, [MusicUnpause]))"

text \<open>The cooldown block: wave left, else wave right, else play/pause.\<close>

definition wave_section ::
  "session \<Rightarrow> real \<Rightarrow> bool \<Rightarrow> player \<Rightarrow> hand_landmarks
     \<Rightarrow> error + (player \<times> command option \<times> call list)" where
  "wave_section cfg now busy s hand_landmark =
     (if now - last_wave_time s > cooldown_time then
        if is_wave_left hand_landmark then
          (case next_index cfg (current_song_index s) of
             Inl e \<Rightarrow> Inl e
           | Inr i \<Rightarrow>
               Inr (s\<lparr>current_song_index := i, current_message := ''Next Song'',
                       message_start_time := now, last_wave_time := now\<rparr>,
                    Some NextTrack,
                    [MusicLoad (music_files cfg ! nat i), MusicPlay]))
        else if is_wave_right hand_landmark then
          (case previous_index cfg (current_song_index s) of
             Inl e \<Rightarrow> Inl e
           | Inr i \<Rightarrow>
               Inr (s\<lparr>current_song_index := i, current_message := ''Previous Song'',
                       message_start_time := now, last_wave_time := now\<rparr>,
                    Some PreviousTrack,
                    [MusicLoad (music_files cfg ! nat i), MusicPlay]))
        else if is_play_pause_gesture hand_landmark
                \<and> now - last_gesture_time s > gesture_cooldown then
          (let (s', cs) = play_pause_branch now busy s
           in Inr (s', Some PlayPauseToggle, cs))
        else Inr (s, None, [])
      else Inr (s, None, []))"

text \<open>The pixel distance between thumb tip and index tip.\<close>

definition pinch_length :: "int \<times> int \<Rightarrow> hand_landmarks \<Rightarrow> real" where
  "pinch_length shape hand_landmark =
     (let (h, w) = shape;
          thumb = landmark hand_landmark 4;
          index = landmark hand_landmark 8;
          thumb_x = py_int (x thumb * real_of_int w);
          thumb_y = py_int (y thumb * real_of_int h);
          index_x = py_int (x index * real_of_int w);
          index_y = py_int (y index * real_of_int h)
      in hypot (real_of_int (index_x - thumb_x)) (real_of_int (index_y - thumb_y)))"

definition volume_level :: "session \<Rightarrow> real \<Rightarrow> real" where
  "volume_level cfg len = interp len (30, 250) (minVol cfg, maxVol cfg)"

definition volume_percent :: "real \<Rightarrow> int" where
  "volume_percent len = py_int (interp len (30, 250) (0, 100))"

text \<open>The volume block, run for every hand whatever the cooldown block did.\<close>

definition volume_section ::
  "session \<Rightarrow> int \<times> int \<Rightarrow> player \<Rightarrow> hand_landmarks \<Rightarrow> player \<times> call list" where
  "volume_section cfg shape s hand_landmark =
     (if is_volume_control_gesture hand_landmark then
        (let len = pinch_length shape hand_landmark;
             new_volume = volume_level cfg len
         in (s\<lparr>volume_gesture_active := True, last_volume := new_volume,
                volPer := volume_percent len\<rparr>,
             [SetMasterVolumeLevel new_volume]))
      else (s, []))"

definition process_hand ::
  "session \<Rightarrow> frame_input \<Rightarrow> player \<Rightarrow> hand_landmarks
     \<Rightarrow> error + (player \<times> command list \<times> call list)" where
  "process_hand cfg f s hand_landmark =
     (case wave_section cfg (current_time f) (get_busy f) s hand_landmark of
        Inl e \<Rightarrow> Inl e
      | Inr (s1, cmd, cs1) \<Rightarrow>
          (let (s2, cs2) = volume_section cfg (frame_shape f) s1 hand_landmark
           in Inr (s2, (case cmd of None \<Rightarrow> [] | Some c \<Rightarrow> [c]), cs1 @ cs2)))"

subsection \<open>One frame and the loop\<close>

fun process_hands ::
  "session \<Rightarrow> frame_input \<Rightarrow> player \<Rightarrow> hand_landmarks list
     \<Rightarrow> error + (player \<times> command list \<times> call list)" where
  "process_hands cfg f s [] = Inr (s, [], [])"
| "process_hands cfg f s (hand_landmark # rest) =
     (case process_hand cfg f s hand_landmark of
        Inl e \<Rightarrow> Inl e
      | Inr (s1, cmds1, cs1) \<Rightarrow>
          (case process_hands cfg f s1 rest of
             Inl e \<Rightarrow> Inl e
           | Inr (s2, cmds2, cs2) \<Rightarrow> Inr (s2, cmds1 @ cmds2, cs1 @ cs2)))"

text \<open>The hands the loop visits: the zip of the two result lists, when both are truthy.\<close>

definition detected_hands :: "results \<Rightarrow> hand_landmarks list" where
  "detected_hands r =
     (if truthy (multi_hand_landmarks r) \<and> truthy (multi_handedness r)
      then map fst (zip (the (multi_hand_landmarks r)) (the (multi_handedness r)))
      else [])"

definition process_frame ::
  "session \<Rightarrow> player \<Rightarrow> frame_input \<Rightarrow> error + (player \<times> frame_output)" where
  "process_frame cfg s f =
     (let s0 = s\<lparr>volPer := py_int (interp (last_volume s) (minVol cfg, maxVol cfg) (0, 100)),
                 volume_gesture_active := False\<rparr>
      in case process_hands cfg f s0 (detected_hands (detection f)) of
           Inl e \<Rightarrow> Inl e
         | Inr (s1, cmds, cs) \<Rightarrow>
             (let shown = (current_message s1 \<noteq> ''''
                            \<and> current_time f - message_start_time s1 < message_duration);
                  s2 = (if shown then s1 else s1\<lparr>current_message := ''''\<rparr>)
              in Inr (s2, \<lparr>commands = cmds, calls = cs,
                           shown_message = (if shown then Some (current_message s1) else None),
                           shown_volume = volPer s2\<rparr>)))"

text \<open>\<open>cv2.waitKey(1) & 0xFF == ord('q')\<close>\<close>

definition quit_key :: "int \<Rightarrow> bool" where
  "quit_key k = (and k 255 = 113)"

text \<open>
  The loop over the frames the camera delivers; the end of the list is the failed read
  that breaks the loop.
\<close>

fun main_loop ::
  "session \<Rightarrow> player \<Rightarrow> frame_input list \<Rightarrow> error + (player \<times> frame_output list)" where
  "main_loop cfg s [] = Inr (s, [])"
| "main_loop cfg s (f # fs) =
     (case process_frame cfg s f of
        Inl e \<Rightarrow> Inl e
      | Inr (s1, out) \<Rightarrow>
          if quit_key (wait_key f) then Inr (s1, [out])
          else (case main_loop cfg s1 fs of
                  Inl e \<Rightarrow> Inl e
                | Inr (s2, outs) \<Rightarrow> Inr (s2, out # outs)))"

definition program ::
  "char \<Rightarrow> string list option \<Rightarrow> device \<Rightarrow> frame_input list
     \<Rightarrow> error + (player \<times> frame_output list)" where
  "program sep listing dev frames =
     (case startup sep listing dev of
        Inl e \<Rightarrow> Inl e
      | Inr (cfg, s, loaded) \<Rightarrow> main_loop cfg s frames)"

subsection \<open>The index invariant\<close>

definition index_ok :: "session \<Rightarrow> player \<Rightarrow> bool" where
  "index_ok cfg s = (0 \<le> current_song_index s \<and> current_song_index s < int (length (music_files cfg)))"

subsection \<open>Sample inputs\<close>

text \<open>
  A playlist of three tracks, the player as start-up leaves it, and hands in the four poses:
  fingertips left of the wrist, right of the wrist, the OK sign, the pinch; \<open>edge_hand\<close>
  has every fingertip exactly 0.1 left of the wrist.
\<close>

definition demo_session :: session where
  "demo_session = \<lparr>music_files = [''songs/a.mp3'', ''songs/b.mp3'', ''songs/c.mp3''],
                     minVol = -65.25, maxVol = 0\<rparr>"

definition demo_device :: device where
  "demo_device = \<lparr>volRange = (-65.25, 0), master_level = -20\<rparr>"

definition fresh_player :: player where
  "fresh_player = \<lparr>current_song_index = 0, last_volume = -20, last_wave_time = 0,
                    last_gesture_time = 0, current_message = '''', message_start_time = 0,
                    volPer = 0, volume_gesture_active = False\<rparr>"

definition left_hand :: hand_landmarks where
  "left_hand = \<lparr>landmark = (\<lambda>i. if i = 0 then \<lparr>x = 0.5, y = 0.5\<rparr> else \<lparr>x = 0.2, y = 0.5\<rparr>)\<rparr>"

definition right_hand :: hand_landmarks where
  "right_hand = \<lparr>landmark = (\<lambda>i. if i = 0 then \<lparr>x = 0.5, y = 0.5\<rparr> else \<lparr>x = 0.8, y = 0.5\<rparr>)\<rparr>"

definition ok_hand :: hand_landmarks where
  "ok_hand = \<lparr>landmark = (\<lambda>i. if i = 12 \<or> i = 16 \<or> i = 20 then \<lparr>x = 0.5, y = 0.3\<rparr>
                               else \<lparr>x = 0.5, y = 0.5\<rparr>)\<rparr>"

definition frame_at :: "hand_landmarks list \<Rightarrow> real \<Rightarrow> frame_input" where
  "frame_at hs t = \<lparr>detection = \<lparr>multi_hand_landmarks = Some hs,
                                  multi_handedness = Some (map (\<lambda>_. Right) hs)\<rparr>,
                    frame_shape = (480, 640), current_time = t, get_busy = False,
                    wait_key = - 1\<rparr>"

definition pinch_hand :: hand_landmarks where
  "pinch_hand = \<lparr>landmark = (\<lambda>i. if i = 4 then \<lparr>x = 0.25, y = 0.5\<rparr>
                                 else if i = 8 then \<lparr>x = 0.25, y = 0.25\<rparr>
                                 else if i = 12 \<or> i = 16 \<or> i = 20 then \<lparr>x = 0.5, y = 0.75\<rparr>
                                 else \<lparr>x = 0.5, y = 0.5\<rparr>)\<rparr>"

definition edge_hand :: hand_landmarks where
  "edge_hand = \<lparr>landmark = (\<lambda>i. if i = 0 then \<lparr>x = 0.1, y = 0\<rparr> else \<lparr>x = 0, y = 0\<rparr>)\<rparr>"

section \<open>Properties\<close>

lemmas run_defs =
  process_frame_def detected_hands_def truthy_def process_hand_def wave_section_def
  volume_section_def next_index_def previous_index_def play_pause_branch_def
  is_wave_left_def is_wave_right_def is_play_pause_gesture_def is_volume_control_gesture_def
  hypot_def cooldown_time_def gesture_cooldown_def message_duration_def quit_key_def
  demo_session_def fresh_player_def left_hand_def right_hand_def ok_hand_def frame_at_def
  Let_def

subsection \<open>The cooldown block, hand by hand\<close>

lemma wave_section_eq:
  assumes "music_files cfg \<noteq> []"
  shows "wave_section cfg now busy s h =
    (if now - last_wave_time s > cooldown_time \<and> is_wave_left h then
       Inr (s\<lparr>current_song_index := (current_song_index s + 1) mod int (length (music_files cfg)),
               current_message := ''Next Song'', message_start_time := now, last_wave_time := now\<rparr>,
            Some NextTrack,
            [MusicLoad (music_files cfg ! nat ((current_song_index s + 1) mod int (length (music_files cfg)))), MusicPlay])
     else if now - last_wave_time s > cooldown_time \<and> is_wave_right h then
       Inr (s\<lparr>current_song_index := (current_song_index s - 1) mod int (length (music_files cfg)),
               current_message := ''Previous Song'', message_start_time := now, last_wave_time := now\<rparr>,
            Some PreviousTrack,
            [MusicLoad (music_files cfg ! nat ((current_song_index s - 1) mod int (length (music_files cfg)))), MusicPlay])
     else if now - last_wave_time s > cooldown_time \<and> is_play_pause_gesture h
              \<and> now - last_gesture_time s > gesture_cooldown then
       Inr (fst (play_pause_branch now busy s), Some PlayPauseToggle, snd (play_pause_branch now busy s))
     else Inr (s, None, []))"
  using assms by (simp add: wave_section_def next_index_def previous_index_def split: prod.split)

lemma play_pause_branch_fields:
  "last_wave_time (fst (play_pause_branch now busy s)) = last_wave_time s"
  "last_gesture_time (fst (play_pause_branch now busy s)) = now"
  "current_song_index (fst (play_pause_branch now busy s)) = current_song_index s"
  "current_message (fst (play_pause_branch now busy s)) = (if busy then ''Paused'' else ''Playing'')"
  "message_start_time (fst (play_pause_branch now busy s)) = now"
  "snd (play_pause_branch now busy s) = [if busy then MusicPause else MusicUnpause]"
  by (simp_all add: play_pause_branch_def)

lemma volume_section_fields:
  "last_wave_time (fst (volume_section cfg sh s h)) = last_wave_time s"
  "last_gesture_time (fst (volume_section cfg sh s h)) = last_gesture_time s"
  "current_song_index (fst (volume_section cfg sh s h)) = current_song_index s"
  "current_message (fst (volume_section cfg sh s h)) = current_message s"
  "message_start_time (fst (volume_section cfg sh s h)) = message_start_time s"
  by (simp_all add: volume_section_def Let_def)

lemma process_hand_eq:
  "process_hand cfg f s h =
     (case wave_section cfg (current_time f) (get_busy f) s h of
        Inl e \<Rightarrow> Inl e
      | Inr r \<Rightarrow> Inr (fst (volume_section cfg (frame_shape f) (fst r) h),
                      (case fst (snd r) of None \<Rightarrow> [] | Some c \<Rightarrow> [c]),
                      snd (snd r) @ snd (volume_section cfg (frame_shape f) (fst r) h)))"
  by (simp add: process_hand_def split: sum.split prod.split)

text \<open>The three ways a hand can pass through the loop body.\<close>

lemma process_hand_cases:
  assumes ne: "music_files cfg \<noteq> []"
  obtains
    (idle) s' cs where
      "process_hand cfg f s h = Inr (s', [], cs)"
      "last_wave_time s' = last_wave_time s" "last_gesture_time s' = last_gesture_time s"
      "current_song_index s' = current_song_index s"
  | (wave) s' c cs where
      "process_hand cfg f s h = Inr (s', [c], cs)" "c = NextTrack \<or> c = PreviousTrack"
      "current_time f - last_wave_time s > cooldown_time"
      "last_wave_time s' = current_time f" "last_gesture_time s' = last_gesture_time s"
      "index_ok cfg s'"
  | (toggle) s' cs where
      "process_hand cfg f s h = Inr (s', [PlayPauseToggle], cs)"
      "current_time f - last_wave_time s > cooldown_time"
      "current_time f - last_gesture_time s > gesture_cooldown"
      "last_wave_time s' = last_wave_time s" "last_gesture_time s' = current_time f"
      "current_song_index s' = current_song_index s"
proof -
  let ?now = "current_time f"
  let ?n = "int (length (music_files cfg))"
  let ?gate = "?now - last_wave_time s > cooldown_time"
  let ?P = "process_hand cfg f s h"
  have npos: "0 < ?n" using ne by simp
  note defs = process_hand_eq wave_section_eq[OF ne] volume_section_fields
  consider
      (a) "?gate" "is_wave_left h"
    | (b) "?gate" "\<not> is_wave_left h" "is_wave_right h"
    | (c) "?gate" "\<not> is_wave_left h" "\<not> is_wave_right h"
          "is_play_pause_gesture h" "?now - last_gesture_time s > gesture_cooldown"
    | (d) "\<not> ?gate
           \<or> (\<not> is_wave_left h \<and> \<not> is_wave_right h
               \<and> \<not> (is_play_pause_gesture h \<and> ?now - last_gesture_time s > gesture_cooldown))"
    by blast
  then show thesis
  proof cases
    case a
    have "fst (snd (projr ?P)) = [NextTrack]" "last_wave_time (fst (projr ?P)) = ?now"
      "last_gesture_time (fst (projr ?P)) = last_gesture_time s" "index_ok cfg (fst (projr ?P))"
      "\<not> isl ?P"
      using a npos by (simp_all add: defs index_ok_def)
    then show ?thesis
      using wave[of "fst (projr ?P)" NextTrack "snd (snd (projr ?P))"] a(1)
      by (cases ?P) auto
  next
    case b
    have "fst (snd (projr ?P)) = [PreviousTrack]" "last_wave_time (fst (projr ?P)) = ?now"
      "last_gesture_time (fst (projr ?P)) = last_gesture_time s" "index_ok cfg (fst (projr ?P))"
      "\<not> isl ?P"
      using b npos by (simp_all add: defs index_ok_def)
    then show ?thesis
      using wave[of "fst (projr ?P)" PreviousTrack "snd (snd (projr ?P))"] b(1)
      by (cases ?P) auto
  next
    case c
    have "fst (snd (projr ?P)) = [PlayPauseToggle]"
      "last_wave_time (fst (projr ?P)) = last_wave_time s"
      "last_gesture_time (fst (projr ?P)) = ?now"
      "current_song_index (fst (projr ?P)) = current_song_index s"
      "\<not> isl ?P"
      using c by (simp_all add: defs play_pause_branch_fields)
    then show ?thesis
      using toggle[of "fst (projr ?P)" "snd (snd (projr ?P))"] c(1,5)
      by (cases ?P) auto
  next
    case d
    have "fst (snd (projr ?P)) = []"
      "last_wave_time (fst (projr ?P)) = last_wave_time s"
      "last_gesture_time (fst (projr ?P)) = last_gesture_time s"
      "current_song_index (fst (projr ?P)) = current_song_index s"
      "\<not> isl ?P"
      using d by (auto simp add: defs)
    then show ?thesis
      using idle[of "fst (projr ?P)" "snd (snd (projr ?P))"]
      by (cases ?P) auto
  qed
qed

lemma process_hands_cooling:
  assumes "\<not> (current_time f - last_wave_time s > cooldown_time)"
  shows "\<exists>s' cs. process_hands cfg f s hs = Inr (s', [], cs)
           \<and> last_wave_time s' = last_wave_time s
           \<and> last_gesture_time s' = last_gesture_time s
           \<and> current_song_index s' = current_song_index s"
  using assms
proof (induction hs arbitrary: s)
  case Nil
  then show ?case by simp
next
  case (Cons h hs)
  let ?s1 = "fst (volume_section cfg (frame_shape f) s h)"
  have ph: "process_hand cfg f s h = Inr (?s1, [], snd (volume_section cfg (frame_shape f) s h))"
    using Cons.prems by (simp add: process_hand_eq wave_section_def)
  have "\<not> (current_time f - last_wave_time ?s1 > cooldown_time)"
    using Cons.prems by (simp add: volume_section_fields)
  from Cons.IH[OF this] obtain s' cs where
    "process_hands cfg f ?s1 hs = Inr (s', [], cs)"
    "last_wave_time s' = last_wave_time ?s1" "last_gesture_time s' = last_gesture_time ?s1"
    "current_song_index s' = current_song_index ?s1"
    by blast
  then show ?case
    using ph by (simp add: volume_section_fields)
qed

lemma just_fired: "\<not> (t - t > cooldown_time)" "\<not> (t - t > gesture_cooldown)"
  by (simp_all add: cooldown_time_def gesture_cooldown_def)

text \<open>After a play/pause command only a wave command can still be accepted in the frame.\<close>

lemma process_hands_after_toggle:
  assumes "music_files cfg \<noteq> []" "last_gesture_time s = current_time f"
  shows "\<exists>s' cmds cs. process_hands cfg f s hs = Inr (s', cmds, cs)
           \<and> cmds \<in> {[], [NextTrack], [PreviousTrack]}
           \<and> (index_ok cfg s \<longrightarrow> index_ok cfg s')"
  using assms(2)
proof (induction hs arbitrary: s)
  case Nil
  then show ?case by simp
next
  case (Cons h hs)
  from assms(1) show ?case
  proof (cases rule: process_hand_cases[of cfg f s h])
    case (idle s1 cs1)
    with Cons.IH[of s1] Cons.prems show ?thesis
      by (auto simp add: index_ok_def)
  next
    case (wave s1 c cs1)
    from process_hands_cooling[of f s1 cfg hs] wave(4) just_fired(1)
    obtain s' cs where "process_hands cfg f s1 hs = Inr (s', [], cs)"
      "current_song_index s' = current_song_index s1"
      by auto
    with wave show ?thesis by (auto simp add: index_ok_def)
  next
    case (toggle s1 cs1)
    with Cons.prems just_fired(2) show ?thesis by simp
  qed
qed

lemma process_hands_commands:
  assumes "music_files cfg \<noteq> []"
  shows "\<exists>s' cmds cs. process_hands cfg f s hs = Inr (s', cmds, cs)
           \<and> cmds \<in> {[], [NextTrack], [PreviousTrack], [PlayPauseToggle],
                       [PlayPauseToggle, NextTrack], [PlayPauseToggle, PreviousTrack]}
           \<and> (index_ok cfg s \<longrightarrow> index_ok cfg s')"
proof (induction hs arbitrary: s)
  case Nil
  then show ?case by simp
next
  case (Cons h hs)
  from assms show ?case
  proof (cases rule: process_hand_cases[of cfg f s h])
    case (idle s1 cs1)
    with Cons.IH[of s1] show ?thesis
      by (auto simp add: index_ok_def)
  next
    case (wave s1 c cs1)
    from process_hands_cooling[of f s1 cfg hs] wave(4) just_fired(1)
    obtain s' cs where "process_hands cfg f s1 hs = Inr (s', [], cs)"
      "current_song_index s' = current_song_index s1"
      by auto
    with wave show ?thesis by (auto simp add: index_ok_def)
  next
    case (toggle s1 cs1)
    from process_hands_after_toggle[OF assms toggle(5), of hs]
    obtain s' cmds cs where "process_hands cfg f s1 hs = Inr (s', cmds, cs)"
      "cmds \<in> {[], [NextTrack], [PreviousTrack]}" "index_ok cfg s1 \<longrightarrow> index_ok cfg s'"
      by blast
    with toggle show ?thesis by (auto simp add: index_ok_def)
  qed
qed

subsection \<open>Frames and the loop\<close>

lemma process_hand_wave_left:
  assumes "music_files cfg \<noteq> []" "current_time f - last_wave_time s > cooldown_time"
    "is_wave_left h"
  shows "\<exists>s' cs. process_hand cfg f s h = Inr (s', [NextTrack], cs)
           \<and> last_wave_time s' = current_time f
           \<and> current_message s' = ''Next Song''
           \<and> current_song_index s' = (current_song_index s + 1) mod int (length (music_files cfg))"
  using assms(2,3)
  by (simp add: process_hand_eq wave_section_eq[OF assms(1)] volume_section_fields)

lemma process_hands_first_wave_left:
  assumes "music_files cfg \<noteq> []" "current_time f - last_wave_time s > cooldown_time"
    "is_wave_left h"
  shows "\<exists>s' cs. process_hands cfg f s (h # rest) = Inr (s', [NextTrack], cs)
           \<and> last_wave_time s' = current_time f
           \<and> current_song_index s' = (current_song_index s + 1) mod int (length (music_files cfg))"
proof -
  from process_hand_wave_left[OF assms] obtain s1 cs1 where
    h: "process_hand cfg f s h = Inr (s1, [NextTrack], cs1)" "last_wave_time s1 = current_time f"
    "current_song_index s1 = (current_song_index s + 1) mod int (length (music_files cfg))"
    by blast
  from process_hands_cooling[of f s1 cfg rest] h(2) just_fired(1)
  obtain s' cs where "process_hands cfg f s1 rest = Inr (s', [], cs)"
    "last_wave_time s' = last_wave_time s1" "current_song_index s' = current_song_index s1"
    by auto
  with h show ?thesis by simp
qed

text \<open>What the frame does around the loop over the hands leaves the debounce state alone.\<close>

lemma process_frame_hands:
  assumes "process_hands cfg f
             (s\<lparr>volPer := py_int (interp (last_volume s) (minVol cfg, maxVol cfg) (0, 100)),
                volume_gesture_active := False\<rparr>)
             (detected_hands (detection f)) = Inr (s1, cmds, cs)"
  shows "\<exists>s' out. process_frame cfg s f = Inr (s', out) \<and> commands out = cmds
           \<and> calls out = cs
           \<and> last_wave_time s' = last_wave_time s1
           \<and> last_gesture_time s' = last_gesture_time s1
           \<and> current_song_index s' = current_song_index s1"
  using assms by (simp add: process_frame_def Let_def)

lemma process_frame_first_wave_left:
  assumes "music_files cfg \<noteq> []" "current_time f - last_wave_time s > cooldown_time"
    "detected_hands (detection f) = h # rest" "is_wave_left h"
  shows "\<exists>s' out. process_frame cfg s f = Inr (s', out) \<and> commands out = [NextTrack]
           \<and> last_wave_time s' = current_time f
           \<and> current_song_index s' = (current_song_index s + 1) mod int (length (music_files cfg))"
proof -
  let ?s0 = "s\<lparr>volPer := py_int (interp (last_volume s) (minVol cfg, maxVol cfg) (0, 100)),
                volume_gesture_active := False\<rparr>"
  have "current_time f - last_wave_time ?s0 > cooldown_time" using assms(2) by simp
  from process_hands_first_wave_left[OF assms(1) this assms(4), of rest]
  obtain s1 cs where "process_hands cfg f ?s0 (h # rest) = Inr (s1, [NextTrack], cs)"
    "last_wave_time s1 = current_time f"
    "current_song_index s1 = (current_song_index s + 1) mod int (length (music_files cfg))"
    by auto
  with process_frame_hands[of cfg f s s1 "[NextTrack]" cs] assms(3) show ?thesis
    by auto
qed

lemma process_frame_cooling:
  assumes "\<not> (current_time f - last_wave_time s > cooldown_time)"
  shows "\<exists>s' out. process_frame cfg s f = Inr (s', out) \<and> commands out = []
           \<and> last_wave_time s' = last_wave_time s
           \<and> last_gesture_time s' = last_gesture_time s
           \<and> current_song_index s' = current_song_index s"
proof -
  let ?s0 = "s\<lparr>volPer := py_int (interp (last_volume s) (minVol cfg, maxVol cfg) (0, 100)),
                volume_gesture_active := False\<rparr>"
  have "\<not> (current_time f - last_wave_time ?s0 > cooldown_time)" using assms by simp
  from process_hands_cooling[OF this, of cfg "detected_hands (detection f)"]
  obtain s1 cs where "process_hands cfg f ?s0 (detected_hands (detection f)) = Inr (s1, [], cs)"
    "last_wave_time s1 = last_wave_time s" "last_gesture_time s1 = last_gesture_time s"
    "current_song_index s1 = current_song_index s"
    by auto
  with process_frame_hands[of cfg f s s1 "[]" cs] show ?thesis
    by auto
qed

lemma process_frame_commands:
  assumes "music_files cfg \<noteq> []"
  shows "\<exists>s' out. process_frame cfg s f = Inr (s', out)
           \<and> commands out \<in> {[], [NextTrack], [PreviousTrack], [PlayPauseToggle],
                       [PlayPauseToggle, NextTrack], [PlayPauseToggle, PreviousTrack]}
           \<and> (index_ok cfg s \<longrightarrow> index_ok cfg s')"
proof -
  let ?s0 = "s\<lparr>volPer := py_int (interp (last_volume s) (minVol cfg, maxVol cfg) (0, 100)),
                volume_gesture_active := False\<rparr>"
  from process_hands_commands[OF assms, of f ?s0 "detected_hands (detection f)"]
  obtain s1 cmds cs where
    ph: "process_hands cfg f ?s0 (detected_hands (detection f)) = Inr (s1, cmds, cs)"
    and cm: "cmds \<in> {[], [NextTrack], [PreviousTrack], [PlayPauseToggle],
                       [PlayPauseToggle, NextTrack], [PlayPauseToggle, PreviousTrack]}"
    and ix: "index_ok cfg ?s0 \<longrightarrow> index_ok cfg s1"
    by blast
  from process_frame_hands[OF ph] obtain s' out where
    "process_frame cfg s f = Inr (s', out)" "commands out = cmds"
    "current_song_index s' = current_song_index s1"
    by blast
  with cm ix show ?thesis by (auto simp add: index_ok_def)
qed

lemma main_loop_index_ok:
  assumes "music_files cfg \<noteq> []" "index_ok cfg s"
  shows "\<exists>s' outs. main_loop cfg s frames = Inr (s', outs) \<and> index_ok cfg s'"
  using assms(2)
proof (induction frames arbitrary: s)
  case Nil
  then show ?case by simp
next
  case (Cons f fs)
  from process_frame_commands[OF assms(1), of s f] Cons.prems
  obtain s1 out where pf: "process_frame cfg s f = Inr (s1, out)" and ok: "index_ok cfg s1"
    by blast
  from Cons.IH[OF ok] obtain s2 outs where "main_loop cfg s1 fs = Inr (s2, outs)" "index_ok cfg s2"
    by blast
  with pf ok show ?case by simp
qed

lemma startup_ok:
  assumes "startup sep listing dev = Inr (cfg, s, loaded)"
  shows "music_files cfg \<noteq> []" "current_song_index s = 0"
    "last_wave_time s = 0" "last_gesture_time s = 0"
  using assms
  by (auto simp add: startup_def Let_def split: sum.splits if_splits prod.splits)

subsection \<open>The volume mapping\<close>

lemma volume_level_eq:
  "volume_level cfg d =
     (if d \<le> 30 then minVol cfg else if 250 \<le> d then maxVol cfg
      else minVol cfg + (maxVol cfg - minVol cfg) * (d - 30) / 220)"
  by (simp add: volume_level_def interp_def)

lemma volume_level_mono:
  assumes "minVol cfg \<le> maxVol cfg" "d \<le> e"
  shows "volume_level cfg d \<le> volume_level cfg e"
proof -
  let ?k = "maxVol cfg - minVol cfg"
  have k: "0 \<le> ?k" using assms(1) by simp
  have mid: "?k * (a - 30) / 220 \<le> ?k * (b - 30) / 220" if "a \<le> b" for a b :: real
    using k that by (simp add: mult_left_mono divide_right_mono)
  have lo: "0 \<le> ?k * (a - 30) / 220" if "30 \<le> a" for a :: real
    using k that by simp
  have hi: "?k * (a - 30) / 220 \<le> ?k" if "a \<le> 250" for a :: real
  proof -
    have "?k * (a - 30) \<le> ?k * 220" using k that by (intro mult_left_mono) simp_all
    then show ?thesis by simp
  qed
  consider "d \<le> 30" | "30 < d" "d < 250" | "250 \<le> d" by linarith
  then show ?thesis
  proof cases
    case 1
    then show ?thesis using assms lo[of e] by (simp add: volume_level_eq)
  next
    case 2
    then show ?thesis using assms mid[of d e] hi[of d] by (simp add: volume_level_eq)
  next
    case 3
    then show ?thesis using assms by (simp add: volume_level_eq)
  qed
qed

lemma volume_percent_eq:
  "volume_percent d =
     (if d \<le> 30 then 0 else if 250 \<le> d then 100 else \<lfloor>(d - 30) * 100 / 220\<rfloor>)"
proof -
  have "interp d (30, 250) (0, 100) =
          (if d \<le> 30 then 0 else if 250 \<le> d then 100 else (d - 30) * 100 / 220)"
    by (simp add: interp_def)
  moreover have "0 \<le> (d - 30) * 100 / 220" if "30 \<le> d"
    using that by simp
  ultimately show ?thesis
    by (simp add: volume_percent_def py_int_def)
qed

lemma volume_percent_mono:
  assumes "d \<le> e"
  shows "volume_percent d \<le> volume_percent e"
proof -
  have mid: "\<lfloor>(a - 30) * 100 / 220\<rfloor> \<le> \<lfloor>(b - 30) * 100 / 220\<rfloor>" if "a \<le> b" for a b :: real
    using that by (intro floor_mono) (simp add: divide_right_mono)
  have lo: "0 \<le> \<lfloor>(a - 30) * 100 / 220\<rfloor>" if "30 \<le> a" for a :: real
    using that by simp
  have hi: "\<lfloor>(a - 30) * 100 / 220\<rfloor> \<le> 100" if "a \<le> 250" for a :: real
  proof -
    have "(a - 30) * 100 / 220 \<le> 100" using that by simp
    then show ?thesis by (simp add: floor_le_iff)
  qed
  consider "d \<le> 30" | "30 < d" "d < 250" | "250 \<le> d" by linarith
  then show ?thesis
  proof cases
    case 1
    then show ?thesis using assms lo[of e] by (simp add: volume_percent_eq)
  next
    case 2
    then show ?thesis using assms mid[of d e] hi[of d] by (simp add: volume_percent_eq)
  next
    case 3
    then show ?thesis using assms by (simp add: volume_percent_eq)
  qed
qed

lemma volume_percent_range: "0 \<le> volume_percent d \<and> volume_percent d \<le> 100"
  using volume_percent_mono[of 30 d] volume_percent_mono[of d 30]
    volume_percent_mono[of 250 d] volume_percent_mono[of d 250]
  by (cases "d \<le> 30"; cases "250 \<le> d"; simp add: volume_percent_eq)

section \<open>The claims\<close>

subsection \<open>C1: cooldowns per gesture class\<close>

text \<open>
  C1 as stated fails. The play/pause branch sits inside the wave cooldown block, and both
  wave directions share \<open>last_wave_time\<close>. From the same start, with no play/pause command
  ever accepted, the OK sign at time 100.5 is accepted when nothing came before and is dropped
  when a wave-left command was accepted at time 100; and a wave-left hand at 100.5 is dropped
  when a wave-right command was accepted at 100.
\<close>

theorem shared_gate_counterexample:
  "map commands (snd (projr (main_loop demo_session fresh_player
      [frame_at [ok_hand] 100.5]))) = [[PlayPauseToggle]]
   \<and> map commands (snd (projr (main_loop demo_session fresh_player
      [frame_at [left_hand] 100, frame_at [ok_hand] 100.5]))) = [[NextTrack], []]
   \<and> map commands (snd (projr (main_loop demo_session fresh_player
      [frame_at [left_hand] 100.5]))) = [[NextTrack]]
   \<and> map commands (snd (projr (main_loop demo_session fresh_player
      [frame_at [right_hand] 100, frame_at [left_hand] 100.5]))) = [[PreviousTrack], []]"
  by (simp add: run_defs)

text \<open>
  C1, amended: there are two last-fire time stamps, one shared by both wave classes and one
  for play/pause, each with a cooldown of one second. For one hand at time \<open>now\<close>, a wave
  command (left before right) is accepted iff more than \<open>cooldown_time\<close> has passed since
  the last accepted wave command of either direction, whatever the play/pause time stamp is;
  a play/pause command is accepted iff no wave classifier matches, more than
  \<open>cooldown_time\<close> has passed since the last accepted wave command and more than
  \<open>gesture_cooldown\<close> since the last accepted play/pause command. An accepted wave command
  sets only the wave time stamp, an accepted play/pause command only the play/pause one.
\<close>

theorem debounce_gating:
  assumes "music_files cfg \<noteq> []"
  shows "cooldown_time = 1 \<and> gesture_cooldown = 1 \<and>
         (\<exists>s' cs. wave_section cfg now busy s h =
           Inr (s',
                (if now - last_wave_time s > cooldown_time \<and> is_wave_left h
                   then Some NextTrack
                 else if now - last_wave_time s > cooldown_time \<and> is_wave_right h
                   then Some PreviousTrack
                 else if now - last_wave_time s > cooldown_time \<and> is_play_pause_gesture h
                         \<and> now - last_gesture_time s > gesture_cooldown
                   then Some PlayPauseToggle
                 else None),
                cs)
         \<and> last_wave_time s' =
             (if now - last_wave_time s > cooldown_time \<and> (is_wave_left h \<or> is_wave_right h)
              then now else last_wave_time s)
         \<and> last_gesture_time s' =
             (if now - last_wave_time s > cooldown_time \<and> \<not> is_wave_left h \<and> \<not> is_wave_right h
                 \<and> is_play_pause_gesture h \<and> now - last_gesture_time s > gesture_cooldown
              then now else last_gesture_time s))"
  by (simp add: wave_section_eq[OF assms] play_pause_branch_fields cooldown_time_def
      gesture_cooldown_def)

theorem debounce_gating_witness:
  "music_files demo_session \<noteq> []
   \<and> (\<exists>s' cs. wave_section demo_session 100.5 False (fresh_player\<lparr>last_wave_time := 100\<rparr>) ok_hand
                 = Inr (s', None, cs) \<and> last_gesture_time s' = 0)
   \<and> (\<exists>s' cs. wave_section demo_session 100.5 False (fresh_player\<lparr>last_gesture_time := 100\<rparr>) left_hand
                 = Inr (s', Some NextTrack, cs) \<and> last_wave_time s' = 100.5)
   \<and> (\<exists>s' cs. wave_section demo_session 100.5 False fresh_player ok_hand
                 = Inr (s', Some PlayPauseToggle, cs) \<and> last_gesture_time s' = 100.5)"
proof -
  have ne: "music_files demo_session \<noteq> []" by (simp add: demo_session_def)
  show ?thesis
    using ne
      debounce_gating[OF ne, where now = "100.5" and s = "fresh_player\<lparr>last_wave_time := 100\<rparr>"
        and h = ok_hand and busy = False]
      debounce_gating[OF ne, where now = "100.5" and s = "fresh_player\<lparr>last_gesture_time := 100\<rparr>"
        and h = left_hand and busy = False]
      debounce_gating[OF ne, where now = "100.5" and s = fresh_player and h = ok_hand
        and busy = False]
    by (simp add: fresh_player_def ok_hand_def left_hand_def is_wave_left_def
        is_wave_right_def is_play_pause_gesture_def hypot_def cooldown_time_def
        gesture_cooldown_def) blast
qed

subsection \<open>C2: discrete commands per frame\<close>

text \<open>
  C2 as stated fails: an accepted play/pause command does not touch \<open>last_wave_time\<close>,
  so a frame whose first hand shows the OK sign and whose second hand waves left has two
  discrete commands accepted.
\<close>

theorem two_commands_counterexample:
  "commands (snd (projr (process_frame demo_session fresh_player
      (frame_at [ok_hand, left_hand] 100)))) = [PlayPauseToggle, NextTrack]"
  by (simp add: run_defs)

text \<open>
  C2, amended: in every frame, across all detected hands, at most one wave command
  (NextTrack or PreviousTrack) and at most one PlayPauseToggle are accepted; after a wave
  command nothing more is accepted for the remaining hands, after a PlayPauseToggle only one
  wave command still can be. The commands of a frame are one of the six lists below.
\<close>

theorem frame_commands:
  assumes "music_files cfg \<noteq> []"
  shows "\<exists>s' out. process_frame cfg s f = Inr (s', out)
           \<and> commands out \<in> {[], [NextTrack], [PreviousTrack], [PlayPauseToggle],
                               [PlayPauseToggle, NextTrack], [PlayPauseToggle, PreviousTrack]}"
  using process_frame_commands[OF assms, of s f] by blast

theorem frame_commands_witness:
  "music_files demo_session \<noteq> []
   \<and> (\<exists>s' out. process_frame demo_session fresh_player (frame_at [left_hand, right_hand] 100)
                   = Inr (s', out)
        \<and> commands out \<in> {[], [NextTrack], [PreviousTrack], [PlayPauseToggle],
                            [PlayPauseToggle, NextTrack], [PlayPauseToggle, PreviousTrack]})"
proof -
  have ne: "music_files demo_session \<noteq> []" by (simp add: demo_session_def)
  show ?thesis
    using ne frame_commands[OF ne, of fresh_player "frame_at [left_hand, right_hand] 100"]
    by simp
qed

subsection \<open>C3: the wave-left classifier\<close>

text \<open>
  C3 as stated fails on the boundary: the comparison is strict, so a hand whose five
  fingertips are exactly 0.1 left of the wrist is not a wave-left hand.
\<close>

theorem wave_left_boundary_counterexample:
  "x (landmark edge_hand 4) \<le> x (landmark edge_hand 0) - 0.1
   \<and> x (landmark edge_hand 8) \<le> x (landmark edge_hand 0) - 0.1
   \<and> x (landmark edge_hand 12) \<le> x (landmark edge_hand 0) - 0.1
   \<and> x (landmark edge_hand 16) \<le> x (landmark edge_hand 0) - 0.1
   \<and> x (landmark edge_hand 20) \<le> x (landmark edge_hand 0) - 0.1
   \<and> \<not> is_wave_left edge_hand"
  by (simp add: edge_hand_def is_wave_left_def)

text \<open>
  C3, amended: \<open>is_wave_left\<close> is true iff each of the five fingertip x-coordinates
  (indices 4, 8, 12, 16, 20) is strictly less than wrist.x - 0.1; one fingertip at or right of
  wrist.x - 0.1 makes it false.
\<close>

theorem is_wave_left_iff:
  "is_wave_left lm \<longleftrightarrow>
     (\<forall>i \<in> {4, 8, 12, 16, 20}. x (landmark lm i) < x (landmark lm 0) - 0.1)"
  by (simp add: is_wave_left_def Let_def)

theorem is_wave_left_iff_witness:
  "is_wave_left left_hand \<and> \<not> is_wave_left edge_hand \<and> \<not> is_wave_left ok_hand"
  using is_wave_left_iff[of left_hand] is_wave_left_iff[of edge_hand] is_wave_left_iff[of ok_hand]
  by (simp add: left_hand_def edge_hand_def ok_hand_def)

subsection \<open>C4: debounce timing\<close>

text \<open>
  C4: with the wave class armed at the first frame (more than \<open>cooldown_time\<close> since the
  last accepted wave command), two frames whose first hand is a wave-left hand produce exactly
  one NextTrack when their time stamps are 0.5 s apart, and two when they are 1.5 s apart.
\<close>

theorem debounce_two_frames:
  assumes "music_files cfg \<noteq> []"
    and "current_time f1 - last_wave_time s > cooldown_time"
    and "detected_hands (detection f1) = h1 # rest1" and "is_wave_left h1"
    and "detected_hands (detection f2) = h2 # rest2" and "is_wave_left h2"
    and "\<not> quit_key (wait_key f1)"
  shows "(current_time f2 = current_time f1 + 0.5 \<longrightarrow>
           (\<exists>s' out1 out2. main_loop cfg s [f1, f2] = Inr (s', [out1, out2])
              \<and> commands out1 @ commands out2 = [NextTrack]))
       \<and> (current_time f2 = current_time f1 + 1.5 \<longrightarrow>
           (\<exists>s' out1 out2. main_loop cfg s [f1, f2] = Inr (s', [out1, out2])
              \<and> commands out1 @ commands out2 = [NextTrack, NextTrack]))"
proof -
  from process_frame_first_wave_left[OF assms(1,2,3,4)]
  obtain s1 out1 where f1: "process_frame cfg s f1 = Inr (s1, out1)"
    "commands out1 = [NextTrack]" "last_wave_time s1 = current_time f1"
    by blast
  have near: ?thesis if *: "current_time f2 = current_time f1 + 0.5" 
  proof -
    have "\<not> (current_time f2 - last_wave_time s1 > cooldown_time)"
      using * f1(3) by (simp add: cooldown_time_def)
    from process_frame_cooling[OF this, of cfg]
    obtain s2 out2 where "process_frame cfg s1 f2 = Inr (s2, out2)" "commands out2 = []"
      by blast
    with f1 assms(7) * show ?thesis by simp
  qed
  have far: ?thesis if *: "current_time f2 = current_time f1 + 1.5" 
  proof -
    have "current_time f2 - last_wave_time s1 > cooldown_time"
      using * f1(3) by (simp add: cooldown_time_def)
    from process_frame_first_wave_left[OF assms(1) this assms(5,6)]
    obtain s2 out2 where "process_frame cfg s1 f2 = Inr (s2, out2)" "commands out2 = [NextTrack]"
      by blast
    with f1 assms(7) * show ?thesis by simp
  qed
  from near far show ?thesis by fastforce
qed

theorem debounce_two_frames_witness:
  "(\<exists>s' out1 out2. main_loop demo_session fresh_player
        [frame_at [left_hand] 100, frame_at [left_hand] 100.5] = Inr (s', [out1, out2])
      \<and> commands out1 @ commands out2 = [NextTrack])
   \<and> (\<exists>s' out1 out2. main_loop demo_session fresh_player
        [frame_at [left_hand] 100, frame_at [left_hand] 101.5] = Inr (s', [out1, out2])
      \<and> commands out1 @ commands out2 = [NextTrack, NextTrack])"
proof -
  have ne: "music_files demo_session \<noteq> []" by (simp add: demo_session_def)
  have armed: "current_time (frame_at [left_hand] 100) - last_wave_time fresh_player > cooldown_time"
    by (simp add: frame_at_def fresh_player_def cooldown_time_def)
  have hands: "detected_hands (detection (frame_at [left_hand] t)) = left_hand # []" for t
    by (simp add: frame_at_def detected_hands_def truthy_def)
  have wl: "is_wave_left left_hand" by (simp add: is_wave_left_def left_hand_def)
  have nq: "\<not> quit_key (wait_key (frame_at [left_hand] 100))"
    by (simp add: frame_at_def quit_key_def)
  have t1: "current_time (frame_at [left_hand] 100.5) = current_time (frame_at [left_hand] 100) + 0.5"
    and t2: "current_time (frame_at [left_hand] 101.5) = current_time (frame_at [left_hand] 100) + 1.5"
    by (simp_all add: frame_at_def)
  from debounce_two_frames[OF ne armed hands wl hands wl nq, of "100.5"]
    debounce_two_frames[OF ne armed hands wl hands wl nq, of "101.5"] t1 t2
  show ?thesis by blast
qed

subsection \<open>C5: the volume mapping\<close>

text \<open>
  C5: the device level set for a pixel distance is \<open>minVol\<close> at 30 and \<open>maxVol\<close> at 250,
  constant below 30 and above 250, linear in between, and non-decreasing when the device range
  has \<open>minVol \<le> maxVol\<close>; the displayed percentage is the integer part of the same
  mapping onto 0 to 100, with the same clamping. The volume block stores and sends exactly
  these two values.
\<close>

theorem volume_mapping:
  "volume_level cfg 30 = minVol cfg \<and> volume_level cfg 250 = maxVol cfg
   \<and> (d \<le> 30 \<longrightarrow> volume_level cfg d = volume_level cfg 30)
   \<and> (250 \<le> d \<longrightarrow> volume_level cfg d = volume_level cfg 250)
   \<and> (30 \<le> d \<and> d \<le> 250 \<longrightarrow>
        volume_level cfg d = minVol cfg + (maxVol cfg - minVol cfg) * (d - 30) / 220)
   \<and> (minVol cfg \<le> maxVol cfg \<and> d \<le> e \<longrightarrow> volume_level cfg d \<le> volume_level cfg e)
   \<and> volume_percent 30 = 0 \<and> volume_percent 250 = 100
   \<and> (d \<le> 30 \<longrightarrow> volume_percent d = volume_percent 30)
   \<and> (250 \<le> d \<longrightarrow> volume_percent d = volume_percent 250)
   \<and> (30 \<le> d \<and> d \<le> 250 \<longrightarrow> volume_percent d = \<lfloor>0 + (100 - 0) * (d - 30) / 220\<rfloor>)
   \<and> (d \<le> e \<longrightarrow> volume_percent d \<le> volume_percent e)
   \<and> 0 \<le> volume_percent d \<and> volume_percent d \<le> 100
   \<and> (is_volume_control_gesture h \<longrightarrow>
        volume_section cfg shape s h =
          (s\<lparr>volume_gesture_active := True,
             last_volume := volume_level cfg (pinch_length shape h),
             volPer := volume_percent (pinch_length shape h)\<rparr>,
           [SetMasterVolumeLevel (volume_level cfg (pinch_length shape h))]))"
proof -
  have c1: "volume_level cfg 30 = minVol cfg" "volume_level cfg 250 = maxVol cfg"
    by (simp_all add: volume_level_eq)
  have c2: "d \<le> 30 \<longrightarrow> volume_level cfg d = volume_level cfg 30"
    "250 \<le> d \<longrightarrow> volume_level cfg d = volume_level cfg 250"
    by (simp_all add: volume_level_eq)
  have c3: "30 \<le> d \<and> d \<le> 250 \<longrightarrow>
        volume_level cfg d = minVol cfg + (maxVol cfg - minVol cfg) * (d - 30) / 220"
    by (cases "d = 250"; cases "d = 30"; simp add: volume_level_eq diff_divide_distrib)
  have c4: "minVol cfg \<le> maxVol cfg \<and> d \<le> e \<longrightarrow> volume_level cfg d \<le> volume_level cfg e"
    using volume_level_mono by blast
  have c5: "volume_percent 30 = 0" "volume_percent 250 = 100"
    by (simp_all add: volume_percent_eq)
  have c6: "d \<le> 30 \<longrightarrow> volume_percent d = volume_percent 30"
    "250 \<le> d \<longrightarrow> volume_percent d = volume_percent 250"
    by (simp_all add: volume_percent_eq)
  have c7: "30 \<le> d \<and> d \<le> 250 \<longrightarrow> volume_percent d = \<lfloor>0 + (100 - 0) * (d - 30) / 220\<rfloor>"
    by (cases "d = 250"; cases "d = 30"; simp add: volume_percent_eq mult.commute)
  have c8: "d \<le> e \<longrightarrow> volume_percent d \<le> volume_percent e"
    using volume_percent_mono by blast
  have c9: "is_volume_control_gesture h \<longrightarrow>
        volume_section cfg shape s h =
          (s\<lparr>volume_gesture_active := True,
             last_volume := volume_level cfg (pinch_length shape h),
             volPer := volume_percent (pinch_length shape h)\<rparr>,
           [SetMasterVolumeLevel (volume_level cfg (pinch_length shape h))])"
    by (simp add: volume_section_def Let_def)
  from c1 c2 c3 c4 c5 c6 c7 c8 c9 volume_percent_range[of d] show ?thesis
    by blast
qed

theorem volume_mapping_witness:
  "volume_level demo_session 20 = - 65.25 \<and> volume_level demo_session 300 = 0
   \<and> volume_level demo_session 140 = - 32.625
   \<and> volume_level demo_session 100 \<le> volume_level demo_session 140
   \<and> volume_percent 20 = 0 \<and> volume_percent 300 = 100 \<and> volume_percent 140 = 50
   \<and> volume_percent 100 \<le> volume_percent 140
   \<and> is_volume_control_gesture pinch_hand
   \<and> snd (volume_section demo_session (480, 640) fresh_player pinch_hand)
       = [SetMasterVolumeLevel (volume_level demo_session (pinch_length (480, 640) pinch_hand))]"
  using volume_mapping[of demo_session 20 140 pinch_hand "(480, 640)" fresh_player]
    volume_mapping[of demo_session 300 300 pinch_hand "(480, 640)" fresh_player]
    volume_mapping[of demo_session 140 140 pinch_hand "(480, 640)" fresh_player]
    volume_mapping[of demo_session 100 140 pinch_hand "(480, 640)" fresh_player]
  by (simp add: demo_session_def pinch_hand_def is_volume_control_gesture_def)

subsection \<open>C6: play/pause toggle\<close>

text \<open>
  C6: when a PlayPauseToggle is accepted, the call and the message depend on \<open>get_busy()\<close>
  only: busy gives \<open>pause()\<close> and "Paused", not busy gives \<open>unpause()\<close> and "Playing"; a
  second accepted toggle that sees the opposite busy state gives the other message.
\<close>

theorem play_pause_toggle:
  assumes "wave_section cfg t1 busy1 s1 h1 = Inr (s1', Some PlayPauseToggle, cs1)"
    and "wave_section cfg t2 busy2 s2 h2 = Inr (s2', Some PlayPauseToggle, cs2)"
  shows "current_message s1' = (if busy1 then ''Paused'' else ''Playing'')
       \<and> cs1 = [if busy1 then MusicPause else MusicUnpause]
       \<and> (busy2 = (\<not> busy1) \<longrightarrow>
            current_message s2' = (if busy1 then ''Playing'' else ''Paused'')
          \<and> cs2 = [if busy1 then MusicUnpause else MusicPause])"
proof -
  have *: "current_message s' = (if busy then ''Paused'' else ''Playing'')
           \<and> cs = [if busy then MusicPause else MusicUnpause]"
    if "wave_section cfg now busy s h = Inr (s', Some PlayPauseToggle, cs)"
    for now busy s h s' cs
    using that
    by (auto simp add: wave_section_def play_pause_branch_def split: if_splits sum.splits)
  from *[OF assms(1)] *[OF assms(2)] show ?thesis by auto
qed

theorem play_pause_toggle_witness:
  "wave_section demo_session 100 True fresh_player ok_hand =
     Inr (fresh_player\<lparr>current_message := ''Paused'', message_start_time := 100,
                       last_gesture_time := 100\<rparr>, Some PlayPauseToggle, [MusicPause])
   \<and> wave_section demo_session 102 False
       (fresh_player\<lparr>current_message := ''Paused'', message_start_time := 100,
                       last_gesture_time := 100\<rparr>) ok_hand =
     Inr (fresh_player\<lparr>current_message := ''Playing'', message_start_time := 102,
                       last_gesture_time := 102\<rparr>, Some PlayPauseToggle, [MusicUnpause])
   \<and> current_message (fresh_player\<lparr>current_message := ''Paused'', message_start_time := 100,
                       last_gesture_time := 100\<rparr>) = ''Paused''
   \<and> current_message (fresh_player\<lparr>current_message := ''Playing'', message_start_time := 102,
                       last_gesture_time := 102\<rparr>) = ''Playing''"
proof -
  have a: "wave_section demo_session 100 True fresh_player ok_hand =
     Inr (fresh_player\<lparr>current_message := ''Paused'', message_start_time := 100,
                       last_gesture_time := 100\<rparr>, Some PlayPauseToggle, [MusicPause])"
    by (simp add: run_defs)
  have b: "wave_section demo_session 102 False
       (fresh_player\<lparr>current_message := ''Paused'', message_start_time := 100,
                       last_gesture_time := 100\<rparr>) ok_hand =
     Inr (fresh_player\<lparr>current_message := ''Playing'', message_start_time := 102,
                       last_gesture_time := 102\<rparr>, Some PlayPauseToggle, [MusicUnpause])"
    by (simp add: run_defs)
  from play_pause_toggle[OF a b] a b show ?thesis by simp
qed

subsection \<open>C7: track index wrap-around\<close>

text \<open>
  C7: on a non-empty playlist of length n and a valid index, an accepted NextTrack yields 0
  at index n - 1 and index + 1 elsewhere, an accepted PreviousTrack yields n - 1 at index 0
  and index - 1 elsewhere; the new index is valid.
\<close>

theorem track_index_wraps:
  assumes "music_files cfg \<noteq> []"
    and "0 \<le> current_song_index s" and "current_song_index s < int (length (music_files cfg))"
    and "now - last_wave_time s > cooldown_time"
  shows "(is_wave_left h \<longrightarrow>
            (\<exists>s' cs. wave_section cfg now busy s h = Inr (s', Some NextTrack, cs)
               \<and> current_song_index s' =
                   (if current_song_index s = int (length (music_files cfg)) - 1 then 0
                    else current_song_index s + 1)
               \<and> 0 \<le> current_song_index s'
               \<and> current_song_index s' < int (length (music_files cfg))))
       \<and> (\<not> is_wave_left h \<and> is_wave_right h \<longrightarrow>
            (\<exists>s' cs. wave_section cfg now busy s h = Inr (s', Some PreviousTrack, cs)
               \<and> current_song_index s' =
                   (if current_song_index s = 0 then int (length (music_files cfg)) - 1
                    else current_song_index s - 1)
               \<and> 0 \<le> current_song_index s'
               \<and> current_song_index s' < int (length (music_files cfg))))"
proof -
  let ?n = "int (length (music_files cfg))"
  let ?i = "current_song_index s"
  have npos: "0 < ?n" using assms(1) by simp
  have nx: "(?i + 1) mod ?n = (if ?i = ?n - 1 then 0 else ?i + 1)"
    using assms(2,3) by simp
  have pv: "(?i - 1) mod ?n = (if ?i = 0 then ?n - 1 else ?i - 1)"
    using assms(2,3) npos by (simp add: zmod_minus1)
  have r1: "0 \<le> (if ?i = ?n - 1 then 0 else ?i + 1) \<and> (if ?i = ?n - 1 then 0 else ?i + 1) < ?n"
    using assms(2,3) npos by simp
  have r2: "0 \<le> (if ?i = 0 then ?n - 1 else ?i - 1) \<and> (if ?i = 0 then ?n - 1 else ?i - 1) < ?n"
    using assms(2,3) npos by simp
  show ?thesis
    using assms(4) r1 r2
    by (simp add: wave_section_eq[OF assms(1)] nx pv del: One_nat_def)
qed

theorem track_index_wraps_witness:
  "(\<exists>s' cs. wave_section demo_session 100 False (fresh_player\<lparr>current_song_index := 2\<rparr>) left_hand
              = Inr (s', Some NextTrack, cs) \<and> current_song_index s' = 0)
   \<and> (\<exists>s' cs. wave_section demo_session 100 False fresh_player right_hand
              = Inr (s', Some PreviousTrack, cs) \<and> current_song_index s' = 2)
   \<and> (\<exists>s' cs. wave_section demo_session 100 False fresh_player left_hand
              = Inr (s', Some NextTrack, cs) \<and> current_song_index s' = 1)"
proof -
  have ne: "music_files demo_session \<noteq> []" by (simp add: demo_session_def)
  have n: "int (length (music_files demo_session)) = 3" by (simp add: demo_session_def)
  have hs: "is_wave_left left_hand" "\<not> is_wave_left right_hand" "is_wave_right right_hand"
    by (simp_all add: is_wave_left_def is_wave_right_def left_hand_def right_hand_def)
  have g: "100 - last_wave_time (fresh_player\<lparr>current_song_index := 2\<rparr>) > cooldown_time"
    "100 - last_wave_time fresh_player > cooldown_time"
    by (simp_all add: fresh_player_def cooldown_time_def)
  have i: "current_song_index fresh_player = 0" by (simp add: fresh_player_def)
  from track_index_wraps[OF ne _ _ g(1), where h = left_hand and busy = False]
    track_index_wraps[OF ne _ _ g(2), where h = right_hand and busy = False]
    track_index_wraps[OF ne _ _ g(2), where h = left_hand and busy = False]
  show ?thesis
    using hs by (simp add: n i fresh_player_def) blast
qed

subsection \<open>C8: volume pose and play/pause pose\<close>

text \<open>
  C8: no landmark set satisfies both \<open>is_volume_control_gesture\<close> and
  \<open>is_play_pause_gesture\<close>: one wants the middle, ring and pinky tips strictly below
  their joints, the other strictly above.
\<close>

theorem volume_play_pause_exclusive:
  "\<not> (is_volume_control_gesture lm \<and> is_play_pause_gesture lm)"
  by (auto simp add: is_volume_control_gesture_def is_play_pause_gesture_def Let_def)

theorem volume_play_pause_exclusive_witness:
  "is_play_pause_gesture ok_hand \<and> \<not> is_volume_control_gesture ok_hand
   \<and> is_volume_control_gesture pinch_hand \<and> \<not> is_play_pause_gesture pinch_hand"
proof -
  have "is_play_pause_gesture ok_hand"
    by (simp add: is_play_pause_gesture_def ok_hand_def hypot_def)
  moreover have "is_volume_control_gesture pinch_hand"
    by (simp add: is_volume_control_gesture_def pinch_hand_def)
  ultimately show ?thesis
    using volume_play_pause_exclusive[of ok_hand] volume_play_pause_exclusive[of pinch_hand]
    by blast
qed

subsection \<open>C9: empty playlist\<close>

text \<open>
  C9: when no name of the listing ends in \<open>.mp3\<close>, start-up raises IndexError at the
  first load, and the program ends with that error whatever frames the camera would deliver:
  the loop is never entered.
\<close>

theorem empty_playlist_aborts:
  assumes "listing = Some names" and "filter (\<lambda>f. endswith f ''.mp3'') names = []"
  shows "startup sep listing dev = Inl IndexError
       \<and> program sep listing dev frames = Inl IndexError"
  using assms by (simp add: program_def startup_def enumerate_music_files_def)

theorem empty_playlist_aborts_witness:
  "filter (\<lambda>f. endswith f ''.mp3'') [''notes.txt'', ''mp3''] = []
   \<and> program (CHR ''/'') (Some [''notes.txt'', ''mp3'']) demo_device
        [frame_at [left_hand] 100] = Inl IndexError"
proof -
  have e: "filter (\<lambda>f. endswith f ''.mp3'') [''notes.txt'', ''mp3''] = []"
    by (simp add: endswith_def)
  from empty_playlist_aborts[OF refl e, of "CHR ''/''" demo_device "[frame_at [left_hand] 100]"] e
  show ?thesis by simp
qed

subsection \<open>C10: the song index stays in range\<close>

text \<open>
  C10: after a successful start-up the playlist is non-empty and the index is 0; whatever
  frames follow, the loop ends without an error and the index is between 0 and
  \<open>len(music_files) - 1\<close>.
\<close>

theorem song_index_in_range:
  assumes "startup sep listing dev = Inr (cfg, s0, loaded)"
  shows "music_files cfg \<noteq> [] \<and> current_song_index s0 = 0
       \<and> (\<exists>s outs. main_loop cfg s0 frames = Inr (s, outs)
             \<and> program sep listing dev frames = Inr (s, outs)
             \<and> 0 \<le> current_song_index s
             \<and> current_song_index s < int (length (music_files cfg)))"
proof -
  from startup_ok[OF assms] have ne: "music_files cfg \<noteq> []" and z: "current_song_index s0 = 0"
    by simp_all
  then have "index_ok cfg s0" by (simp add: index_ok_def)
  from main_loop_index_ok[OF ne this, of frames] obtain s outs where
    "main_loop cfg s0 frames = Inr (s, outs)" "index_ok cfg s"
    by blast
  with ne z assms show ?thesis
    by (simp add: program_def index_ok_def)
qed

theorem song_index_in_range_witness:
  "startup (CHR ''/'') (Some [''c.mp3'', ''notes.txt'', ''a.mp3'', ''b.mp3'']) demo_device
     = Inr (demo_session, fresh_player, [MusicLoad ''songs/a.mp3''])
   \<and> (\<exists>s outs. program (CHR ''/'') (Some [''c.mp3'', ''notes.txt'', ''a.mp3'', ''b.mp3''])
                  demo_device [frame_at [right_hand] 100, frame_at [left_hand] 102] = Inr (s, outs)
        \<and> 0 \<le> current_song_index s \<and> current_song_index s < 3)"
proof -
  have st: "startup (CHR ''/'') (Some [''c.mp3'', ''notes.txt'', ''a.mp3'', ''b.mp3'']) demo_device
     = Inr (demo_session, fresh_player, [MusicLoad ''songs/a.mp3''])"
    by (simp add: startup_def enumerate_music_files_def endswith_def path_join_def
        songs_folder_def demo_device_def demo_session_def fresh_player_def)
  have n: "int (length (music_files demo_session)) = 3" by (simp add: demo_session_def)
  from song_index_in_range[OF st, of "[frame_at [right_hand] 100, frame_at [left_hand] 102]"] st n
  show ?thesis by auto
qed

end
